theory Spec2Isabelle
  imports Main
begin

section \<open>Data model of the Modal component (src/modal/modal.js)\<close>

text \<open>
  A React ref object (\<open>React.createRef()\<close>) is identified by a number; its \<open>current\<close>
  field lives in a store of the host environment. A DOM element is identified by a number
  too, and carries whether it has a \<open>focus\<close> method (the source tests
  \<open>this.lastFocus.focus\<close>: not all elements in IE11 can focus). The \<open>current\<close> of a ref is
  typed as an \<open>HTMLElement\<close> (\<open>ElementRefT\<close>), which has the method: the store keeps the
  number of the element, and \<open>htmlElement\<close> is the element of that number.
\<close>

datatype ref = Ref nat

record element =
  elemId :: nat
  canFocus :: bool

definition htmlElement :: "nat \<Rightarrow> element" where
  "htmlElement n = \<lparr>elemId = n, canFocus = True\<rparr>"

text \<open>The two deferred callbacks of the source: \<open>this.animateOutComplete\<close>, given to
  \<open>setTimeout\<close> in \<open>close\<close>, and the arrow function given to \<open>requestAnimationFrame\<close> in
  \<open>open\<close>.\<close>

datatype callback = AnimateOutComplete | ShowFrame

text \<open>The two click handlers the component passes to its slots as \<open>onClick\<close>.\<close>

datatype handler = OnBackdropClick | OnCloseClick

text \<open>Values of JSX props. \<open>PHost\<close> is a value supplied by the host that the component
  never inspects.\<close>

datatype pval = PBool bool | PStr string | PRef ref | PHandler handler | PHost nat

datatype comp =
  StyledRoot | StyledBackdrop | StyledDialog | StyledDialogContainer | StyledClose
  | CloseIcon | HostComponent nat

text \<open>A rendered JSX tree: an element (component, props in spread order, children), the
  \<open>null\<close> child, or a node supplied by the host (\<open>children\<close>).\<close>

datatype vnode = Element comp "(string \<times> pval) list" "vnode list" | Null | HostNode nat

text \<open>\<open>children\<close> is an element or a function returning one.\<close>

datatype childrenT = ChildNode nat | ChildFn nat

text \<open>
  Modelled from the spec: the override helpers \<open>getOverride\<close> and \<open>getOverrideProps\<close> of
  \<open>../helpers/overrides\<close> are not part of the sources. The spec describes an override as
  "a pairing of {replacement element, extra/override props}"; \<open>getOverride\<close> yields the
  replacement component (if any) and \<open>getOverrideProps\<close> the extra props (none without an
  override). A prop value the host supplies is a ref object or some other value of the
  host's (\<open>HOther\<close>, which includes the host's own functions); the host cannot supply the
  component's own handlers.
\<close>

datatype hostVal = HRef ref | HOther nat

record override =
  replacement :: "nat option"
  oprops :: "(string \<times> hostVal) list"

definition hostProp :: "string \<times> hostVal \<Rightarrow> string \<times> pval" where
  "hostProp kv = (fst kv, case snd kv of HRef r \<Rightarrow> PRef r | HOther n \<Rightarrow> PHost n)"

definition getOverride :: "override option \<Rightarrow> comp option" where
  "getOverride ov = (case ov of None \<Rightarrow> None
     | Some v \<Rightarrow> (case replacement v of None \<Rightarrow> None | Some c \<Rightarrow> Some (HostComponent c)))"

definition getOverrideProps :: "override option \<Rightarrow> (string \<times> pval) list" where
  "getOverrideProps ov = (case ov of None \<Rightarrow> [] | Some v \<Rightarrow> map hostProp (oprops v))"

record overridesT =
  Root :: "override option"
  Backdrop :: "override option"
  DialogContainer :: "override option"
  Dialog :: "override option"
  Close :: "override option"

text \<open>
  Modelled from the spec: the constants \<open>SIZE\<close>, \<open>ROLE\<close> and \<open>CLOSE_SOURCE\<close> of
  \<open>./constants\<close> are not part of the sources. The spec names the role \<open>dialog\<close>, the size
  \<open>default\<close> and the close sources \<open>escape\<close>, \<open>backdrop\<close>, \<open>closeButton\<close>; they are
  strings, as the source tests \<open>source\<close> for truthiness.
\<close>

definition ROLE_dialog :: string where "ROLE_dialog = ''dialog''"
definition SIZE_default :: string where "SIZE_default = ''default''"
definition CLOSE_SOURCE_escape :: string where "CLOSE_SOURCE_escape = ''escape''"
definition CLOSE_SOURCE_backdrop :: string where "CLOSE_SOURCE_backdrop = ''backdrop''"
definition CLOSE_SOURCE_closeButton :: string where "CLOSE_SOURCE_closeButton = ''closeButton''"

text \<open>\<open>ModalPropsT\<close> after React has applied \<open>defaultProps\<close>. \<open>onClose\<close> is the host's
  callback (identified by a number) when supplied.\<close>

record modalProps =
  animate :: bool
  autofocus :: bool
  closeable :: bool
  isOpen :: bool
  overrides :: overridesT
  role :: string
  size' :: string
  mountNode :: "element option"
  onClose :: "nat option"
  children :: childrenT

text \<open>The props as the host writes them: every field of \<open>defaultProps\<close> may be left out.\<close>

record hostProps =
  h_animate :: "bool option"
  h_autofocus :: "bool option"
  h_closeable :: "bool option"
  h_isOpen :: "bool option"
  h_overrides :: "overridesT option"
  h_role :: "string option"
  h_size :: "string option"
  h_mountNode :: "element option"
  h_onClose :: "nat option"
  h_children :: childrenT

definition noOverrides :: overridesT where
  "noOverrides = \<lparr>Root = None, Backdrop = None, DialogContainer = None, Dialog = None,
     Close = None\<rparr>"

text \<open>\<open>static defaultProps\<close> (lines 33-41): React takes the default for each prop the host
  left undefined.\<close>

definition defaultProps :: "hostProps \<Rightarrow> modalProps" where
  "defaultProps h =
     \<lparr>animate = (case h_animate h of None \<Rightarrow> True | Some b \<Rightarrow> b),
      autofocus = (case h_autofocus h of None \<Rightarrow> True | Some b \<Rightarrow> b),
      closeable = (case h_closeable h of None \<Rightarrow> True | Some b \<Rightarrow> b),
      isOpen = (case h_isOpen h of None \<Rightarrow> False | Some b \<Rightarrow> b),
      overrides = (case h_overrides h of None \<Rightarrow> noOverrides | Some v \<Rightarrow> v),
      role = (case h_role h of None \<Rightarrow> ROLE_dialog | Some r \<Rightarrow> r),
      size' = (case h_size h of None \<Rightarrow> SIZE_default | Some s \<Rightarrow> s),
      mountNode = h_mountNode h,
      onClose = h_onClose h,
      children = h_children h\<rparr>"

record modalState =
  isVisible :: bool
  mounted :: bool

text \<open>Where React has the instance in its life cycle.\<close>

datatype phase = Constructed | Mounted | Unmounted

record keyboardEvent =
  key :: string
  defaultPrevented :: bool

text \<open>
  The component instance together with the host environment it acts on. First the fields
  React manages (\<open>this.props\<close>, \<open>this.state\<close>), then the instance fields of the class
  (lines 43-46), then the environment: the build flag \<open>__BROWSER__\<close>, the clock, the pending
  timeouts (id, due time, callback) and animation-frame callbacks (id, callback), whether
  \<open>onDocumentKeyPress\<close> is registered for \<open>keyup\<close> on the document, the document's
  \<open>activeElement\<close> and \<open>body\<close>, the store of ref objects, the \<open>scrollTop\<close> of elements,
  and the logs of the \<open>focus()\<close> calls made and of the \<open>onClose\<close> calls made
  (callback, source).
\<close>

record world =
  props :: modalProps
  state :: modalState
  phase :: phase
  animateOutTimer :: "nat option"
  animateStartTimer :: "nat option"
  lastFocus :: "element option"
  refs :: "(string \<times> ref) list"
  browser :: bool
  now :: nat
  timeoutCount :: nat
  timeouts :: "(nat \<times> nat \<times> callback) list"
  frameCount :: nat
  frames :: "(nat \<times> callback) list"
  keyupListener :: bool
  activeElement :: "element option"
  body :: "element option"
  refCount :: nat
  refCurrent :: "ref \<Rightarrow> nat option"
  scrollTop :: "nat \<Rightarrow> nat"
  focusCalls :: "element list"
  onCloseCalls :: "(nat \<times> string) list"

section \<open>Host environment primitives\<close>

text \<open>\<open>setTimeout\<close> and \<open>requestAnimationFrame\<close> return a fresh positive handle;
  \<open>clearTimeout\<close> and \<open>cancelAnimationFrame\<close> drop the pending entry with that handle and
  do nothing when there is none.\<close>

definition setTimeout :: "callback \<Rightarrow> nat \<Rightarrow> world \<Rightarrow> nat \<times> world" where
  "setTimeout cb delay w =
     (let i = Suc (timeoutCount w)
      in (i, w\<lparr>timeoutCount := i, timeouts := timeouts w @ [(i, now w + delay, cb)]\<rparr>))"

definition clearTimeout :: "nat \<Rightarrow> world \<Rightarrow> world" where
  "clearTimeout i w = w\<lparr>timeouts := filter (\<lambda>t. fst t \<noteq> i) (timeouts w)\<rparr>"

definition requestAnimationFrame :: "callback \<Rightarrow> world \<Rightarrow> nat \<times> world" where
  "requestAnimationFrame cb w =
     (let i = Suc (frameCount w)
      in (i, w\<lparr>frameCount := i, frames := frames w @ [(i, cb)]\<rparr>))"

definition cancelAnimationFrame :: "nat \<Rightarrow> world \<Rightarrow> world" where
  "cancelAnimationFrame i w = w\<lparr>frames := filter (\<lambda>t. fst t \<noteq> i) (frames w)\<rparr>"

text \<open>JavaScript truthiness of an optional handle and of an optional string.\<close>

definition truthyHandle :: "nat option \<Rightarrow> bool" where
  "truthyHandle h = (case h of None \<Rightarrow> False | Some i \<Rightarrow> i \<noteq> 0)"

definition truthySource :: "string option \<Rightarrow> bool" where
  "truthySource s = (case s of None \<Rightarrow> False | Some x \<Rightarrow> x \<noteq> [])"

text \<open>\<open>el.focus()\<close>: the element becomes the document's active element.\<close>

definition focus :: "element \<Rightarrow> world \<Rightarrow> world" where
  "focus el w = w\<lparr>activeElement := Some el, focusCalls := focusCalls w @ [el]\<rparr>"

text \<open>\<open>React.createRef()\<close>: a new ref object whose \<open>current\<close> is null.\<close>

definition createRef :: "world \<Rightarrow> ref \<times> world" where
  "createRef w =
     (let r = Ref (refCount w)
      in (r, w\<lparr>refCount := Suc (refCount w), refCurrent := (refCurrent w)(r := None)\<rparr>))"

text \<open>The value of a prop in a spread prop list: the last binding of the name wins.\<close>

definition propOf :: "string \<Rightarrow> (string \<times> pval) list \<Rightarrow> pval option" where
  "propOf k ps = map_of (rev ps) k"

section \<open>The methods of the class\<close>

text \<open>\<open>addDomEvents\<close> and \<open>removeDomEvents\<close> (lines 77-87). Adding the same listener
  function twice registers it once.\<close>

definition addDomEvents :: "world \<Rightarrow> world" where
  "addDomEvents w = (if browser w then w\<lparr>keyupListener := True\<rparr> else w)"

definition removeDomEvents :: "world \<Rightarrow> world" where
  "removeDomEvents w = (if browser w then w\<lparr>keyupListener := False\<rparr> else w)"

text \<open>\<open>clearTimers\<close> (lines 117-125): the handles stay in their fields.\<close>

definition clearTimers :: "world \<Rightarrow> world" where
  "clearTimers w =
     (let w1 = (case animateOutTimer w of
                  Some i \<Rightarrow> if truthyHandle (Some i) then clearTimeout i w else w
                | None \<Rightarrow> w)
      in (case animateStartTimer w1 of
            Some i \<Rightarrow> if truthyHandle (Some i) then cancelAnimationFrame i w1 else w1
          | None \<Rightarrow> w1))"

text \<open>\<open>getMountNode\<close> (lines 202-210): the \<open>mountNode\<close> prop, else \<open>document.body\<close>, which
  may be null.\<close>

definition getMountNode :: "world \<Rightarrow> element option" where
  "getMountNode w = (case mountNode (props w) of Some n \<Rightarrow> Some n | None \<Rightarrow> body w)"

text \<open>\<open>getChildren\<close> (lines 212-215): a function is called, an element is taken as it is.\<close>

definition getChildren :: "world \<Rightarrow> vnode" where
  "getChildren w = (case children (props w) of ChildFn n \<Rightarrow> HostNode n | ChildNode n \<Rightarrow> HostNode n)"

text \<open>\<open>getRef\<close> (lines 217-229). The \<open>$ref\<close> of the override props is typed as a ref
  object; any other value there is taken as absent.\<close>

definition getRef :: "string \<Rightarrow> world \<Rightarrow> ref \<times> world" where
  "getRef component w =
     (case propOf ''$ref'' (getOverrideProps (Dialog (overrides (props w)))) of
        Some (PRef overrideRef) \<Rightarrow> (overrideRef, w)
      | _ \<Rightarrow>
         (case map_of (refs w) component of
            Some r \<Rightarrow> (r, w)
          | None \<Rightarrow>
             (let (r, w1) = createRef w
              in (r, w1\<lparr>refs := refs w1 @ [(component, r)]\<rparr>))))"

text \<open>
  Modelled from the spec: \<open>ownerDocument\<close> of \<open>./utils\<close> is not part of the sources. The
  spec has the open transition "capture the currently-focused element in the host
  document"; the model has one document, whose active element is \<open>activeElement\<close>, and
  \<open>captureLastFocus\<close> (lines 159-161) reads it.
\<close>

definition captureLastFocus :: "world \<Rightarrow> world" where
  "captureLastFocus w = w\<lparr>lastFocus := activeElement w\<rparr>"

text \<open>\<open>restoreLastFocus\<close> and \<open>autoFocus\<close> (lines 163-182).\<close>

definition restoreLastFocus :: "world \<Rightarrow> world" where
  "restoreLastFocus w =
     (case lastFocus w of
        None \<Rightarrow> w
      | Some el \<Rightarrow> (if canFocus el then focus el w else w)\<lparr>lastFocus := None\<rparr>)"

definition autoFocus :: "world \<Rightarrow> world" where
  "autoFocus w =
     (if \<not> autofocus (props w) then w
      else (let (r, w1) = getRef ''Dialog'' w
            in (case refCurrent w1 r of None \<Rightarrow> w1 | Some dialog \<Rightarrow> focus (htmlElement dialog) w1)))"

text \<open>\<open>open\<close> (lines 127-147).\<close>

definition "open" :: "world \<Rightarrow> world" where
  "open w =
     (let w1 = captureLastFocus w;
          w2 = autoFocus w1;
          (r, w3) = getRef ''Root'' w2;
          w4 = (case refCurrent w3 r of
                  None \<Rightarrow> w3
                | Some rootRef \<Rightarrow> w3\<lparr>scrollTop := (scrollTop w3)(rootRef := 0)\<rparr>);
          w5 = clearTimers w4;
          w6 = addDomEvents w5;
          (i, w7) = requestAnimationFrame ShowFrame w6
      in w7\<lparr>animateStartTimer := Some i\<rparr>)"

text \<open>\<open>close\<close> (lines 149-157). Calling the host's \<open>onClose\<close> is recorded in the log; what
  the host does in answer (such as setting \<open>isOpen\<close> to false) is a later step of the
  host.\<close>

definition callOnClose :: "nat \<Rightarrow> string \<Rightarrow> world \<Rightarrow> world" where
  "callOnClose cb s w = w\<lparr>onCloseCalls := onCloseCalls w @ [(cb, s)]\<rparr>"

definition close :: "string option \<Rightarrow> world \<Rightarrow> world" where
  "close source w =
     (let w1 = (case (onClose (props w), source) of
                  (Some cb, Some s) \<Rightarrow> if truthySource (Some s) then callOnClose cb s w else w
                | _ \<Rightarrow> w);
          w2 = removeDomEvents w1;
          (i, w3) = setTimeout AnimateOutComplete 500 w2;
          w4 = w3\<lparr>animateOutTimer := Some i\<rparr>
      in restoreLastFocus w4)"

text \<open>\<open>componentDidUpdate\<close> (lines 62-75).\<close>

definition componentDidUpdate :: "modalProps \<Rightarrow> modalState \<Rightarrow> world \<Rightarrow> world" where
  "componentDidUpdate prevProps prevState w =
     (if isOpen (props w) \<noteq> isOpen prevProps
         \<or> (isOpen (props w) \<and> mounted (state w) \<and> \<not> mounted prevState)
      then (if isOpen (props w) then open w else close None w)
      else w)"

text \<open>\<open>getSharedProps\<close> (lines 190-200).\<close>

definition getSharedProps :: "world \<Rightarrow> (string \<times> pval) list" where
  "getSharedProps w =
     [(''$animate'', PBool (animate (props w))),
      (''$isVisible'', PBool (isVisible (state w))),
      (''$isOpen'', PBool (isOpen (props w))),
      (''$size'', PStr (size' (props w))),
      (''$role'', PStr (role (props w))),
      (''$closeable'', PBool (closeable (props w)))]"

text \<open>\<open>renderModal\<close> (lines 231-300). The props of an element are listed in the order
  the JSX writes and spreads them. \<open>getRef\<close> may create a ref object, so the world is
  returned too.\<close>

definition slotComponent :: "override option \<Rightarrow> comp \<Rightarrow> comp" where
  "slotComponent ov styled = (case getOverride ov of Some c \<Rightarrow> c | None \<Rightarrow> styled)"

definition renderModal :: "world \<Rightarrow> vnode \<times> world" where
  "renderModal w =
     (let ovs = overrides (props w);
          sharedProps = getSharedProps w;
          kids = getChildren w;
          (rootRef, w1) = getRef ''Root'' w;
          (dialogRef, w2) = getRef ''Dialog'' w1
      in (Element (slotComponent (Root ovs) StyledRoot)
            ([(''role'', PStr (role (props w))), (''$ref'', PRef rootRef)]
               @ sharedProps @ getOverrideProps (Root ovs))
            [Element (slotComponent (Backdrop ovs) StyledBackdrop)
               ([(''onClick'', PHandler OnBackdropClick)]
                  @ sharedProps @ getOverrideProps (Backdrop ovs))
               [],
             Element (slotComponent (DialogContainer ovs) StyledDialogContainer)
               (sharedProps @ getOverrideProps (DialogContainer ovs))
               [Element (slotComponent (Dialog ovs) StyledDialog)
                  ([(''tabIndex'', PStr ''-1''), (''aria-modal'', PStr ''true''),
                    (''role'', PStr ''document''), (''$ref'', PRef dialogRef)]
                     @ sharedProps @ getOverrideProps (Dialog ovs))
                  [if closeable (props w)
                   then Element (slotComponent (Close ovs) StyledClose)
                          ([(''aria-label'', PStr ''Close''), (''onClick'', PHandler OnCloseClick)]
                             @ sharedProps @ getOverrideProps (Close ovs))
                          [Element CloseIcon [] []]
                   else Null,
                   kids]]],
          w2))"

text \<open>\<open>render\<close> (lines 302-316): nothing, or the portal (the tree and its mount node).\<close>

definition render :: "world \<Rightarrow> (vnode \<times> element) option \<times> world" where
  "render w =
     (if \<not> mounted (state w) then (None, w)
      else if \<not> isOpen (props w) \<and> \<not> isVisible (state w) then (None, w)
      else (case getMountNode w of
              None \<Rightarrow> (None, w)
            | Some node \<Rightarrow>
               (let (tree, w1) = renderModal w in (Some (tree, node), w1))))"

text \<open>
  React's \<open>setState\<close>: on a mounted instance the state is updated, the component is
  rendered again and \<open>componentDidUpdate\<close> runs with the props and the state before the
  update; on an instance that is not mounted it does nothing.
\<close>

definition setState :: "(modalState \<Rightarrow> modalState) \<Rightarrow> world \<Rightarrow> world" where
  "setState f w =
     (if phase w \<noteq> Mounted then w
      else (let prevState = state w;
                w1 = w\<lparr>state := f (state w)\<rparr>;
                w2 = snd (render w1)
            in componentDidUpdate (props w) prevState w2))"

text \<open>\<open>componentDidMount\<close> and \<open>componentWillUnmount\<close> (lines 53-60).\<close>

definition componentDidMount :: "world \<Rightarrow> world" where
  "componentDidMount w = setState (\<lambda>s. s\<lparr>mounted := True\<rparr>) w"

definition componentWillUnmount :: "world \<Rightarrow> world" where
  "componentWillUnmount w = clearTimers (removeDomEvents w)"

text \<open>The event handlers (lines 89-115).\<close>

definition onDocumentKeyPress :: "keyboardEvent \<Rightarrow> world \<Rightarrow> world" where
  "onDocumentKeyPress event w =
     (if key event \<noteq> ''Escape'' then w
      else if defaultPrevented event then w
      else if \<not> closeable (props w) then w
      else close (Some CLOSE_SOURCE_escape) w)"

definition onBackdropClick :: "world \<Rightarrow> world" where
  "onBackdropClick w =
     (if \<not> closeable (props w) then w else close (Some CLOSE_SOURCE_backdrop) w)"

definition onCloseClick :: "world \<Rightarrow> world" where
  "onCloseClick w = close (Some CLOSE_SOURCE_closeButton) w"

text \<open>\<open>animateOutComplete\<close> (lines 184-188) and the frame callback of \<open>open\<close>
  (lines 144-146).\<close>

definition animateOutComplete :: "world \<Rightarrow> world" where
  "animateOutComplete w = setState (\<lambda>s. s\<lparr>isVisible := False\<rparr>) w"

definition showFrame :: "world \<Rightarrow> world" where
  "showFrame w = setState (\<lambda>s. s\<lparr>isVisible := True\<rparr>) w"

definition runCallback :: "callback \<Rightarrow> world \<Rightarrow> world" where
  "runCallback cb w = (case cb of AnimateOutComplete \<Rightarrow> animateOutComplete w | ShowFrame \<Rightarrow> showFrame w)"

definition runHandler :: "handler \<Rightarrow> world \<Rightarrow> world" where
  "runHandler h w = (case h of OnBackdropClick \<Rightarrow> onBackdropClick w | OnCloseClick \<Rightarrow> onCloseClick w)"

section \<open>The life of an instance: React and the browser as steps\<close>

text \<open>The instance as the class initialisers leave it (lines 43-51), in a fresh
  environment.\<close>

definition construct :: "modalProps \<Rightarrow> bool \<Rightarrow> element option \<Rightarrow> element option \<Rightarrow> world" where
  "construct p inBrowser docBody active =
     \<lparr>props = p, state = \<lparr>isVisible = False, mounted = False\<rparr>, phase = Constructed,
      animateOutTimer = None, animateStartTimer = None, lastFocus = None, refs = [],
      browser = inBrowser, now = 0, timeoutCount = 0, timeouts = [], frameCount = 0,
      frames = [], keyupListener = False, activeElement = active, body = docBody,
      refCount = 0, refCurrent = (\<lambda>r. None), scrollTop = (\<lambda>e. 0), focusCalls = [],
      onCloseCalls = []\<rparr>"

text \<open>The Backdrop element and the Close slot of a rendered tree, and the handler a click
  on an element reaches (its effective \<open>onClick\<close>, when that is one of the component's).\<close>

fun backdropOf :: "vnode \<Rightarrow> vnode option" where
  "backdropOf (Element c ps (b # rest)) = Some b"
| "backdropOf t = None"

fun closeSlotOf :: "vnode \<Rightarrow> vnode option" where
  "closeSlotOf (Element c ps [b, Element c1 ps1 [Element c2 ps2 (x # rest)]]) = Some x"
| "closeSlotOf t = None"

fun clickHandler :: "vnode \<Rightarrow> handler option" where
  "clickHandler (Element c ps cs) =
     (case propOf ''onClick'' ps of Some (PHandler h) \<Rightarrow> Some h | _ \<Rightarrow> None)"
| "clickHandler t = None"

definition click :: "(vnode \<Rightarrow> vnode option) \<Rightarrow> world \<Rightarrow> world" where
  "click slot w =
     (if phase w \<noteq> Mounted then w
      else (case fst (render w) of
              None \<Rightarrow> w
            | Some (tree, node) \<Rightarrow>
               (case slot tree of
                  None \<Rightarrow> w
                | Some el \<Rightarrow> (case clickHandler el of None \<Rightarrow> w | Some h \<Rightarrow> runHandler h w))))"

datatype event =
  Mount | Unmount | SetProps modalProps
  | KeyUp keyboardEvent | ClickBackdrop | ClickClose
  | Frame | FireTimeout nat | Advance nat
  | AttachRef ref "nat option" | MoveFocus "element option"

text \<open>
  One step of the surroundings. React mounts an instance once (first render, then
  \<open>componentDidMount\<close>), updates the props of a mounted instance only (render, then
  \<open>componentDidUpdate\<close> with the previous props), and unmounts it once. The browser
  delivers \<open>keyup\<close> to a registered listener, clicks to rendered elements, runs the pending
  animation-frame callbacks at a frame, and runs a pending timeout once it is due (never
  before, possibly later). \<open>AttachRef\<close> is React setting the \<open>current\<close> of a ref when it
  commits; \<open>MoveFocus\<close> is the user moving the focus.
\<close>

definition mount :: "world \<Rightarrow> world" where
  "mount w = (if phase w \<noteq> Constructed then w
              else componentDidMount ((snd (render w))\<lparr>phase := Mounted\<rparr>))"

definition unmount :: "world \<Rightarrow> world" where
  "unmount w = (if phase w \<noteq> Mounted then w
                else (componentWillUnmount w)\<lparr>phase := Unmounted\<rparr>)"

definition setProps :: "modalProps \<Rightarrow> world \<Rightarrow> world" where
  "setProps p w =
     (if phase w \<noteq> Mounted then w
      else (let prevProps = props w;
                w1 = w\<lparr>props := p\<rparr>;
                w2 = snd (render w1)
            in componentDidUpdate prevProps (state w) w2))"

definition runFrame :: "world \<Rightarrow> world" where
  "runFrame w = fold (\<lambda>f. runCallback (snd f)) (frames w) (w\<lparr>frames := []\<rparr>)"

definition fireTimeout :: "nat \<Rightarrow> world \<Rightarrow> world" where
  "fireTimeout i w =
     (case find (\<lambda>t. fst t = i) (timeouts w) of
        None \<Rightarrow> w
      | Some (j, due, cb) \<Rightarrow>
         (if due \<le> now w then runCallback cb (clearTimeout i w) else w))"

fun step :: "event \<Rightarrow> world \<Rightarrow> world" where
  "step Mount w = mount w"
| "step Unmount w = unmount w"
| "step (SetProps p) w = setProps p w"
| "step (KeyUp ev) w = (if keyupListener w then onDocumentKeyPress ev w else w)"
| "step ClickBackdrop w = click backdropOf w"
| "step ClickClose w = click closeSlotOf w"
| "step Frame w = runFrame w"
| "step (FireTimeout i) w = fireTimeout i w"
| "step (Advance d) w = w\<lparr>now := now w + d\<rparr>"
| "step (AttachRef r el) w = w\<lparr>refCurrent := (refCurrent w)(r := el)\<rparr>"
| "step (MoveFocus el) w = w\<lparr>activeElement := el\<rparr>"

definition run :: "event list \<Rightarrow> world \<Rightarrow> world" where
  "run evs w = fold step evs w"

text \<open>The steps by which a user dismisses the modal.\<close>

definition isDismissal :: "event \<Rightarrow> bool" where
  "isDismissal e = (case e of KeyUp ev \<Rightarrow> True | ClickBackdrop \<Rightarrow> True | ClickClose \<Rightarrow> True
     | _ \<Rightarrow> False)"

text \<open>Whether the Close slot of a rendered tree holds an element.\<close>

definition hasCloseSlot :: "vnode \<Rightarrow> bool" where
  "hasCloseSlot t = (case closeSlotOf t of Some (Element c ps cs) \<Rightarrow> True | _ \<Rightarrow> False)"

text \<open>A host that leaves every optional prop out, and a page with a body and a focused
  button, for the concrete runs below.\<close>

definition plainHost :: hostProps where
  "plainHost = \<lparr>h_animate = None, h_autofocus = None, h_closeable = None, h_isOpen = None,
     h_overrides = None, h_role = None, h_size = None, h_mountNode = None, h_onClose = Some 7,
     h_children = ChildNode 0\<rparr>"

definition pageBody :: element where "pageBody = \<lparr>elemId = 1, canFocus = True\<rparr>"

definition pageButton :: element where "pageButton = \<lparr>elemId = 2, canFocus = True\<rparr>"

definition closedProps :: modalProps where "closedProps = defaultProps plainHost"

definition openProps :: modalProps where "openProps = closedProps\<lparr>isOpen := True\<rparr>"

definition freshModal :: world where
  "freshModal = construct closedProps True (Some pageBody) (Some pageButton)"

text \<open>A modal that is open, shown, and not closeable.\<close>

definition lockedProps :: modalProps where "lockedProps = openProps\<lparr>closeable := False\<rparr>"

definition lockedModal :: world where
  "lockedModal = run [Mount, SetProps lockedProps, Frame] freshModal"

text \<open>Before React has mounted the instance nothing is scheduled or registered and nothing
  is visible; from the mount on, \<open>mounted\<close> is true.\<close>

definition started :: "world \<Rightarrow> bool" where
  "started w =
     (if phase w = Constructed
      then \<not> isVisible (state w) \<and> frames w = [] \<and> timeouts w = [] \<and> \<not> keyupListener w
      else mounted (state w))"

text \<open>
  Three concrete histories of the plain modal. In the first the user dismisses the open
  modal with the close button, the host answers \<open>onClose\<close> by setting \<open>isOpen\<close> to false,
  and opens the modal again 100 time units later. In the second the host itself closes the
  modal and opens it again 100 units later. In the third the host opens the modal and
  closes it at once, and the browser delivers no animation frame until the hide timer has
  fired.
\<close>

definition dismissThenReopen :: "event list" where
  "dismissThenReopen =
     [Mount, SetProps openProps, Frame, ClickClose, SetProps closedProps, Advance 100,
      SetProps openProps, Frame]"

definition closeThenReopen :: "event list" where
  "closeThenReopen =
     [Mount, SetProps openProps, Frame, SetProps closedProps, Advance 100,
      SetProps openProps, Frame]"

definition closeBeforeFrame :: "event list" where
  "closeBeforeFrame =
     [Mount, SetProps openProps, SetProps closedProps, Advance 500, FireTimeout 1, Frame]"

text \<open>
  The plain modal open and shown; the same with a host override of the Close slot that
  brings an \<open>onClick\<close> of the host's own; and the history in which the animation frame
  comes before the hide timer.
\<close>

definition shownModal :: world where
  "shownModal = run [Mount, SetProps openProps, Frame] freshModal"

definition ownClickProps :: modalProps where
  "ownClickProps = openProps\<lparr>overrides := noOverrides
     \<lparr>Close := Some \<lparr>replacement = None, oprops = [(''onClick'', HOther 9)]\<rparr>\<rparr>\<rparr>"

definition ownClickModal :: world where
  "ownClickModal = run [Mount, SetProps ownClickProps, Frame] freshModal"

definition closeThenFrame :: "event list" where
  "closeThenFrame =
     [Mount, SetProps openProps, SetProps closedProps, Advance 16, Frame, Advance 484,
      FireTimeout 1]"

section \<open>What each method leaves alone and what it changes\<close>

text \<open>Rendering only ever touches the ref objects (\<open>getRef\<close> creates them on demand).\<close>

lemma getRef_keeps:
  "props (snd (getRef c w)) = props w"
  "state (snd (getRef c w)) = state w"
  "phase (snd (getRef c w)) = phase w"
  "animateOutTimer (snd (getRef c w)) = animateOutTimer w"
  "animateStartTimer (snd (getRef c w)) = animateStartTimer w"
  "lastFocus (snd (getRef c w)) = lastFocus w"
  "browser (snd (getRef c w)) = browser w"
  "now (snd (getRef c w)) = now w"
  "timeoutCount (snd (getRef c w)) = timeoutCount w"
  "timeouts (snd (getRef c w)) = timeouts w"
  "frameCount (snd (getRef c w)) = frameCount w"
  "frames (snd (getRef c w)) = frames w"
  "keyupListener (snd (getRef c w)) = keyupListener w"
  "activeElement (snd (getRef c w)) = activeElement w"
  "body (snd (getRef c w)) = body w"
  "scrollTop (snd (getRef c w)) = scrollTop w"
  "focusCalls (snd (getRef c w)) = focusCalls w"
  "onCloseCalls (snd (getRef c w)) = onCloseCalls w"
  by (simp_all add: getRef_def createRef_def Let_def split: option.splits pval.splits)

lemma renderModal_keeps:
  "props (snd (renderModal w)) = props w"
  "state (snd (renderModal w)) = state w"
  "phase (snd (renderModal w)) = phase w"
  "animateOutTimer (snd (renderModal w)) = animateOutTimer w"
  "animateStartTimer (snd (renderModal w)) = animateStartTimer w"
  "lastFocus (snd (renderModal w)) = lastFocus w"
  "browser (snd (renderModal w)) = browser w"
  "now (snd (renderModal w)) = now w"
  "timeoutCount (snd (renderModal w)) = timeoutCount w"
  "timeouts (snd (renderModal w)) = timeouts w"
  "frameCount (snd (renderModal w)) = frameCount w"
  "frames (snd (renderModal w)) = frames w"
  "keyupListener (snd (renderModal w)) = keyupListener w"
  "activeElement (snd (renderModal w)) = activeElement w"
  "body (snd (renderModal w)) = body w"
  "scrollTop (snd (renderModal w)) = scrollTop w"
  "focusCalls (snd (renderModal w)) = focusCalls w"
  "onCloseCalls (snd (renderModal w)) = onCloseCalls w"
  by (simp_all add: renderModal_def Let_def split_beta getRef_keeps)

lemma render_keeps:
  "props (snd (render w)) = props w"
  "state (snd (render w)) = state w"
  "phase (snd (render w)) = phase w"
  "animateOutTimer (snd (render w)) = animateOutTimer w"
  "animateStartTimer (snd (render w)) = animateStartTimer w"
  "lastFocus (snd (render w)) = lastFocus w"
  "browser (snd (render w)) = browser w"
  "now (snd (render w)) = now w"
  "timeoutCount (snd (render w)) = timeoutCount w"
  "timeouts (snd (render w)) = timeouts w"
  "frameCount (snd (render w)) = frameCount w"
  "frames (snd (render w)) = frames w"
  "keyupListener (snd (render w)) = keyupListener w"
  "activeElement (snd (render w)) = activeElement w"
  "body (snd (render w)) = body w"
  "scrollTop (snd (render w)) = scrollTop w"
  "focusCalls (snd (render w)) = focusCalls w"
  "onCloseCalls (snd (render w)) = onCloseCalls w"
  by (simp_all add: render_def Let_def split_beta renderModal_keeps split: option.splits)


lemma clearTimers_keeps:
  "props (clearTimers w) = props w"
  "state (clearTimers w) = state w"
  "phase (clearTimers w) = phase w"
  "animateOutTimer (clearTimers w) = animateOutTimer w"
  "animateStartTimer (clearTimers w) = animateStartTimer w"
  "lastFocus (clearTimers w) = lastFocus w"
  "refs (clearTimers w) = refs w"
  "browser (clearTimers w) = browser w"
  "now (clearTimers w) = now w"
  "timeoutCount (clearTimers w) = timeoutCount w"
  "frameCount (clearTimers w) = frameCount w"
  "keyupListener (clearTimers w) = keyupListener w"
  "activeElement (clearTimers w) = activeElement w"
  "body (clearTimers w) = body w"
  "refCount (clearTimers w) = refCount w"
  "refCurrent (clearTimers w) = refCurrent w"
  "scrollTop (clearTimers w) = scrollTop w"
  "focusCalls (clearTimers w) = focusCalls w"
  "onCloseCalls (clearTimers w) = onCloseCalls w"
  by (simp_all add: clearTimers_def clearTimeout_def cancelAnimationFrame_def Let_def split: option.splits)

lemma clearTimers_timeouts:
  "timeouts (clearTimers w) =
     (case animateOutTimer w of None \<Rightarrow> timeouts w
      | Some i \<Rightarrow> if i = 0 then timeouts w else filter (\<lambda>t. fst t \<noteq> i) (timeouts w))"
  by (simp add: clearTimers_def clearTimeout_def cancelAnimationFrame_def truthyHandle_def Let_def split: option.splits)

lemma clearTimers_frames:
  "frames (clearTimers w) =
     (case animateStartTimer w of None \<Rightarrow> frames w
      | Some i \<Rightarrow> if i = 0 then frames w else filter (\<lambda>t. fst t \<noteq> i) (frames w))"
  by (simp add: clearTimers_def clearTimeout_def cancelAnimationFrame_def truthyHandle_def Let_def split: option.splits)

lemma autoFocus_keeps:
  "props (autoFocus w) = props w"
  "state (autoFocus w) = state w"
  "phase (autoFocus w) = phase w"
  "animateOutTimer (autoFocus w) = animateOutTimer w"
  "animateStartTimer (autoFocus w) = animateStartTimer w"
  "lastFocus (autoFocus w) = lastFocus w"
  "browser (autoFocus w) = browser w"
  "now (autoFocus w) = now w"
  "timeoutCount (autoFocus w) = timeoutCount w"
  "timeouts (autoFocus w) = timeouts w"
  "frameCount (autoFocus w) = frameCount w"
  "frames (autoFocus w) = frames w"
  "keyupListener (autoFocus w) = keyupListener w"
  "body (autoFocus w) = body w"
  "scrollTop (autoFocus w) = scrollTop w"
  "onCloseCalls (autoFocus w) = onCloseCalls w"
  by (simp_all add: autoFocus_def focus_def Let_def split_beta getRef_keeps split: option.splits)

lemma open_keeps:
  "props (open w) = props w"
  "state (open w) = state w"
  "phase (open w) = phase w"
  "animateOutTimer (open w) = animateOutTimer w"
  "browser (open w) = browser w"
  "now (open w) = now w"
  "timeoutCount (open w) = timeoutCount w"
  "body (open w) = body w"
  "onCloseCalls (open w) = onCloseCalls w"
  by (simp_all add: open_def Let_def split_beta captureLastFocus_def addDomEvents_def
      requestAnimationFrame_def clearTimers_keeps getRef_keeps autoFocus_keeps split: option.splits)

lemma open_lastFocus: "lastFocus (open w) = activeElement w"
  by (simp add: open_def Let_def split_beta captureLastFocus_def addDomEvents_def
      requestAnimationFrame_def clearTimers_keeps getRef_keeps autoFocus_keeps split: option.splits)

lemma open_timeouts:
  "timeouts (open w) =
     (case animateOutTimer w of None \<Rightarrow> timeouts w
      | Some i \<Rightarrow> if i = 0 then timeouts w else filter (\<lambda>t. fst t \<noteq> i) (timeouts w))"
  by (simp add: open_def Let_def split_beta captureLastFocus_def addDomEvents_def
      requestAnimationFrame_def clearTimers_keeps clearTimers_timeouts getRef_keeps autoFocus_keeps split: option.splits)

lemma open_frames:
  "frames (open w) =
     (case animateStartTimer w of None \<Rightarrow> frames w
      | Some i \<Rightarrow> if i = 0 then frames w else filter (\<lambda>t. fst t \<noteq> i) (frames w))
     @ [(Suc (frameCount w), ShowFrame)]"
  "frameCount (open w) = Suc (frameCount w)"
  "animateStartTimer (open w) = Some (Suc (frameCount w))"
  "keyupListener (open w) = (browser w \<or> keyupListener w)"
  by (simp_all add: open_def Let_def split_beta captureLastFocus_def addDomEvents_def
      requestAnimationFrame_def clearTimers_keeps clearTimers_frames getRef_keeps autoFocus_keeps split: option.splits)

lemma restoreLastFocus_keeps:
  "props (restoreLastFocus w) = props w"
  "state (restoreLastFocus w) = state w"
  "phase (restoreLastFocus w) = phase w"
  "animateOutTimer (restoreLastFocus w) = animateOutTimer w"
  "animateStartTimer (restoreLastFocus w) = animateStartTimer w"
  "refs (restoreLastFocus w) = refs w"
  "browser (restoreLastFocus w) = browser w"
  "now (restoreLastFocus w) = now w"
  "timeoutCount (restoreLastFocus w) = timeoutCount w"
  "timeouts (restoreLastFocus w) = timeouts w"
  "frameCount (restoreLastFocus w) = frameCount w"
  "frames (restoreLastFocus w) = frames w"
  "keyupListener (restoreLastFocus w) = keyupListener w"
  "body (restoreLastFocus w) = body w"
  "refCount (restoreLastFocus w) = refCount w"
  "refCurrent (restoreLastFocus w) = refCurrent w"
  "scrollTop (restoreLastFocus w) = scrollTop w"
  "onCloseCalls (restoreLastFocus w) = onCloseCalls w"
  by (simp_all add: restoreLastFocus_def focus_def split: option.splits)

lemma close_keeps:
  "props (close src w) = props w"
  "state (close src w) = state w"
  "phase (close src w) = phase w"
  "animateStartTimer (close src w) = animateStartTimer w"
  "refs (close src w) = refs w"
  "browser (close src w) = browser w"
  "now (close src w) = now w"
  "frameCount (close src w) = frameCount w"
  "frames (close src w) = frames w"
  "body (close src w) = body w"
  "refCount (close src w) = refCount w"
  "refCurrent (close src w) = refCurrent w"
  "scrollTop (close src w) = scrollTop w"
  by (simp_all add: close_def Let_def split_beta restoreLastFocus_keeps setTimeout_def removeDomEvents_def callOnClose_def
      split: option.splits)

lemma close_timer:
  "timeouts (close src w) = timeouts w @ [(Suc (timeoutCount w), now w + 500, AnimateOutComplete)]"
  "timeoutCount (close src w) = Suc (timeoutCount w)"
  "animateOutTimer (close src w) = Some (Suc (timeoutCount w))"
  "keyupListener (close src w) = (\<not> browser w \<and> keyupListener w)"
  by (simp_all add: close_def Let_def split_beta restoreLastFocus_keeps setTimeout_def removeDomEvents_def callOnClose_def
      split: option.splits)

lemma close_onCloseCalls:
  "onCloseCalls (close src w) = onCloseCalls w @
     (case (onClose (props w), src) of
        (Some cb, Some s) \<Rightarrow> if s \<noteq> [] then [(cb, s)] else []
      | _ \<Rightarrow> [])"
  by (simp add: close_def Let_def split_beta restoreLastFocus_keeps setTimeout_def removeDomEvents_def callOnClose_def truthySource_def
      split: option.splits)

lemma close_focus:
  "lastFocus (close src w) = None"
  "focusCalls (close src w) = focusCalls w @
     (case lastFocus w of None \<Rightarrow> [] | Some el \<Rightarrow> if canFocus el then [el] else [])"
  "activeElement (close src w) =
     (case lastFocus w of None \<Rightarrow> activeElement w
      | Some el \<Rightarrow> if canFocus el then Some el else activeElement w)"
  by (simp_all add: close_def Let_def split_beta restoreLastFocus_def focus_def setTimeout_def removeDomEvents_def callOnClose_def
      split: option.splits)

lemma componentDidUpdate_keeps:
  "props (componentDidUpdate pp ps w) = props w"
  "state (componentDidUpdate pp ps w) = state w"
  "phase (componentDidUpdate pp ps w) = phase w"
  "browser (componentDidUpdate pp ps w) = browser w"
  "now (componentDidUpdate pp ps w) = now w"
  "body (componentDidUpdate pp ps w) = body w"
  "onCloseCalls (componentDidUpdate pp ps w) = onCloseCalls w"
  by (simp_all add: componentDidUpdate_def open_keeps close_keeps close_onCloseCalls split: option.splits)

lemma setState_keeps:
  "props (setState f w) = props w"
  "phase (setState f w) = phase w"
  "browser (setState f w) = browser w"
  "now (setState f w) = now w"
  "body (setState f w) = body w"
  "onCloseCalls (setState f w) = onCloseCalls w"
  by (simp_all add: setState_def Let_def componentDidUpdate_keeps render_keeps)

lemma setState_state:
  "state (setState f w) = (if phase w = Mounted then f (state w) else state w)"
  by (simp add: setState_def Let_def componentDidUpdate_keeps render_keeps)

text \<open>An update of the state that leaves \<open>mounted\<close> as it is only renders again:
  \<open>componentDidUpdate\<close> finds nothing to do.\<close>

lemma setState_same_mounted:
  "mounted (f (state w)) = mounted (state w) \<Longrightarrow>
   setState f w = (if phase w = Mounted then snd (render (w\<lparr>state := f (state w)\<rparr>)) else w)"
  by (simp add: setState_def Let_def componentDidUpdate_def render_keeps)

lemma runCallback_eq:
  "runCallback cb w =
     (if phase w = Mounted
      then snd (render (w\<lparr>state := (state w)\<lparr>isVisible := (cb = ShowFrame)\<rparr>\<rparr>)) else w)"
  by (cases cb) (simp_all add: runCallback_def animateOutComplete_def showFrame_def setState_same_mounted)

lemma runCallback_keeps:
  "props (runCallback cb w) = props w"
  "phase (runCallback cb w) = phase w"
  "animateOutTimer (runCallback cb w) = animateOutTimer w"
  "animateStartTimer (runCallback cb w) = animateStartTimer w"
  "lastFocus (runCallback cb w) = lastFocus w"
  "browser (runCallback cb w) = browser w"
  "now (runCallback cb w) = now w"
  "timeoutCount (runCallback cb w) = timeoutCount w"
  "timeouts (runCallback cb w) = timeouts w"
  "frameCount (runCallback cb w) = frameCount w"
  "frames (runCallback cb w) = frames w"
  "keyupListener (runCallback cb w) = keyupListener w"
  "activeElement (runCallback cb w) = activeElement w"
  "body (runCallback cb w) = body w"
  "scrollTop (runCallback cb w) = scrollTop w"
  "focusCalls (runCallback cb w) = focusCalls w"
  "onCloseCalls (runCallback cb w) = onCloseCalls w"
  by (simp_all add: runCallback_eq render_keeps)

lemma runCallback_state:
  "state (runCallback cb w) =
     (if phase w = Mounted then (state w)\<lparr>isVisible := (cb = ShowFrame)\<rparr> else state w)"
  by (simp add: runCallback_eq render_keeps)

lemma close_changes: "close src w \<noteq> w"
proof
  assume "close src w = w"
  then have "timeoutCount (close src w) = timeoutCount w" by simp
  then show False by (simp add: close_timer)
qed

lemma renderModal_closeSlot:
  "hasCloseSlot (fst (renderModal w)) = closeable (props w)"
  by (simp add: renderModal_def hasCloseSlot_def Let_def split_beta)

lemma renderModal_shape:
  "\<exists>c ps bc bps dcc dcps dc dps x.
     fst (renderModal w) =
       Element c ps [Element bc bps [], Element dcc dcps [Element dc dps [x, getChildren w]]]"
  by (simp add: renderModal_def Let_def split_beta)

lemma propOf_append:
  "propOf k (ps @ qs) = (case propOf k qs of Some v \<Rightarrow> Some v | None \<Rightarrow> propOf k ps)"
  by (simp add: propOf_def map_of_append map_add_def split: option.splits)

lemma propOf_hostProp_handler: "propOf k (map hostProp qs) \<noteq> Some (PHandler h)"
proof
  assume "propOf k (map hostProp qs) = Some (PHandler h)"
  then have "(k, PHandler h) \<in> set (rev (map hostProp qs))"
    unfolding propOf_def by (rule map_of_SomeD)
  then show False by (auto simp add: hostProp_def split: hostVal.splits)
qed

lemma getOverrideProps_handler: "propOf k (getOverrideProps ov) \<noteq> Some (PHandler h)"
proof (cases ov)
  case None
  then show ?thesis by (simp add: getOverrideProps_def propOf_def)
next
  case (Some v)
  then show ?thesis by (simp add: getOverrideProps_def propOf_hostProp_handler)
qed

lemma propOf_onClick_shared: "propOf ''onClick'' (getSharedProps w) = None"
  by (simp add: propOf_def getSharedProps_def)

lemma propOf_onClick_slot:
  "propOf ''onClick'' (ps @ getSharedProps w @ getOverrideProps ov)
     = (case propOf ''onClick'' (getOverrideProps ov) of
          Some v \<Rightarrow> Some v | None \<Rightarrow> propOf ''onClick'' ps)"
  by (simp add: propOf_append [of _ ps] propOf_append [of _ "getSharedProps w"]
      propOf_onClick_shared split: option.splits)

lemma clickHandler_slot:
  "propOf ''onClick'' ps = Some (PHandler h) \<Longrightarrow>
   clickHandler (Element c (ps @ getSharedProps w @ getOverrideProps ov) cs)
     = (case propOf ''onClick'' (getOverrideProps ov) of None \<Rightarrow> Some h | Some v \<Rightarrow> None)"
  using getOverrideProps_handler [of "''onClick''" ov]
  by (cases "propOf ''onClick'' (getOverrideProps ov)")
     (auto simp add: propOf_onClick_slot split: pval.splits)

lemma clickHandler_backdrop:
  "clickHandler (Element c ((''onClick'', PHandler OnBackdropClick) # getSharedProps w @ getOverrideProps ov) cs)
     = (case propOf ''onClick'' (getOverrideProps ov) of None \<Rightarrow> Some OnBackdropClick | Some v \<Rightarrow> None)"
  using clickHandler_slot [of "[(''onClick'', PHandler OnBackdropClick)]" OnBackdropClick c w ov cs]
  by (simp add: propOf_def)

lemma clickHandler_close:
  "clickHandler (Element c ((''aria-label'', PStr ''Close'') # (''onClick'', PHandler OnCloseClick)
       # getSharedProps w @ getOverrideProps ov) cs)
     = (case propOf ''onClick'' (getOverrideProps ov) of None \<Rightarrow> Some OnCloseClick | Some v \<Rightarrow> None)"
  using clickHandler_slot [of "[(''aria-label'', PStr ''Close''), (''onClick'', PHandler OnCloseClick)]"
      OnCloseClick c w ov cs]
  by (simp add: propOf_def)

lemma render_fst:
  "fst (render w) =
     (if mounted (state w) \<and> (isOpen (props w) \<or> isVisible (state w))
      then (case getMountNode w of
              None \<Rightarrow> None
            | Some node \<Rightarrow> Some (fst (renderModal w), node))
      else None)"
  by (auto simp add: render_def split_beta split: option.splits)

lemma backdropOf_renderModal:
  "backdropOf (fst (renderModal w)) =
     Some (Element (slotComponent (Backdrop (overrides (props w))) StyledBackdrop)
             ((''onClick'', PHandler OnBackdropClick) # getSharedProps w
                @ getOverrideProps (Backdrop (overrides (props w)))) [])"
  by (simp add: renderModal_def Let_def split_beta)

lemma closeSlotOf_renderModal:
  "closeSlotOf (fst (renderModal w)) =
     Some (if closeable (props w)
           then Element (slotComponent (Close (overrides (props w))) StyledClose)
                  ((''aria-label'', PStr ''Close'') # (''onClick'', PHandler OnCloseClick)
                     # getSharedProps w @ getOverrideProps (Close (overrides (props w))))
                  [Element CloseIcon [] []]
           else Null)"
  by (simp add: renderModal_def Let_def split_beta)

lemma click_backdrop:
  "click backdropOf w =
     (if phase w = Mounted \<and> fst (render w) \<noteq> None
         \<and> propOf ''onClick'' (getOverrideProps (Backdrop (overrides (props w)))) = None
      then onBackdropClick w else w)"
  by (simp add: click_def render_fst backdropOf_renderModal clickHandler_backdrop
      runHandler_def del: clickHandler.simps(1) split: option.splits)

lemma click_close:
  "click closeSlotOf w =
     (if phase w = Mounted \<and> fst (render w) \<noteq> None \<and> closeable (props w)
         \<and> propOf ''onClick'' (getOverrideProps (Close (overrides (props w)))) = None
      then onCloseClick w else w)"
  by (simp add: click_def render_fst closeSlotOf_renderModal clickHandler_close
      runHandler_def del: clickHandler.simps(1) split: option.splits)

lemma fold_keeps:
  "(\<And>x v. g (f x v) = g v) \<Longrightarrow> g (fold f xs w) = g w"
  by (induction xs arbitrary: w) simp_all

lemma runFrame_keeps:
  "props (runFrame w) = props w"
  "phase (runFrame w) = phase w"
  "animateOutTimer (runFrame w) = animateOutTimer w"
  "animateStartTimer (runFrame w) = animateStartTimer w"
  "lastFocus (runFrame w) = lastFocus w"
  "browser (runFrame w) = browser w"
  "now (runFrame w) = now w"
  "timeoutCount (runFrame w) = timeoutCount w"
  "timeouts (runFrame w) = timeouts w"
  "frameCount (runFrame w) = frameCount w"
  "keyupListener (runFrame w) = keyupListener w"
  "activeElement (runFrame w) = activeElement w"
  "body (runFrame w) = body w"
  "focusCalls (runFrame w) = focusCalls w"
  "onCloseCalls (runFrame w) = onCloseCalls w"
  by (simp_all add: runFrame_def fold_keeps runCallback_keeps)

lemma runFrame_frames: "frames (runFrame w) = []"
  by (simp add: runFrame_def fold_keeps runCallback_keeps)

lemma fireTimeout_keeps:
  "props (fireTimeout i w) = props w"
  "phase (fireTimeout i w) = phase w"
  "animateOutTimer (fireTimeout i w) = animateOutTimer w"
  "animateStartTimer (fireTimeout i w) = animateStartTimer w"
  "lastFocus (fireTimeout i w) = lastFocus w"
  "browser (fireTimeout i w) = browser w"
  "now (fireTimeout i w) = now w"
  "timeoutCount (fireTimeout i w) = timeoutCount w"
  "frameCount (fireTimeout i w) = frameCount w"
  "frames (fireTimeout i w) = frames w"
  "keyupListener (fireTimeout i w) = keyupListener w"
  "activeElement (fireTimeout i w) = activeElement w"
  "body (fireTimeout i w) = body w"
  "focusCalls (fireTimeout i w) = focusCalls w"
  "onCloseCalls (fireTimeout i w) = onCloseCalls w"
  by (simp_all add: fireTimeout_def runCallback_keeps clearTimeout_def split: option.splits)

lemma mount_keeps:
  "props (mount w) = props w"
  "browser (mount w) = browser w"
  "now (mount w) = now w"
  "body (mount w) = body w"
  "onCloseCalls (mount w) = onCloseCalls w"
  by (simp_all add: mount_def componentDidMount_def setState_keeps render_keeps)

lemma unmount_keeps:
  "props (unmount w) = props w"
  "state (unmount w) = state w"
  "browser (unmount w) = browser w"
  "now (unmount w) = now w"
  "body (unmount w) = body w"
  "lastFocus (unmount w) = lastFocus w"
  "activeElement (unmount w) = activeElement w"
  "focusCalls (unmount w) = focusCalls w"
  "onCloseCalls (unmount w) = onCloseCalls w"
  by (simp_all add: unmount_def componentWillUnmount_def clearTimers_keeps removeDomEvents_def)

lemma setProps_keeps:
  "state (setProps p w) = state w"
  "phase (setProps p w) = phase w"
  "browser (setProps p w) = browser w"
  "now (setProps p w) = now w"
  "body (setProps p w) = body w"
  "onCloseCalls (setProps p w) = onCloseCalls w"
  by (simp_all add: setProps_def Let_def componentDidUpdate_keeps render_keeps)

lemma onDocumentKeyPress_onCloseCalls:
  "onCloseCalls (onDocumentKeyPress ev w) = onCloseCalls w @
     (case onClose (props w) of
        None \<Rightarrow> []
      | Some cb \<Rightarrow> if key ev = ''Escape'' \<and> \<not> defaultPrevented ev \<and> closeable (props w)
                 then [(cb, ''escape'')] else [])"
  by (simp add: onDocumentKeyPress_def close_onCloseCalls CLOSE_SOURCE_escape_def split: option.splits)

lemma onBackdropClick_onCloseCalls:
  "onCloseCalls (onBackdropClick w) = onCloseCalls w @
     (case onClose (props w) of
        None \<Rightarrow> []
      | Some cb \<Rightarrow> if closeable (props w) then [(cb, ''backdrop'')] else [])"
  by (simp add: onBackdropClick_def close_onCloseCalls CLOSE_SOURCE_backdrop_def split: option.splits)

lemma onCloseClick_onCloseCalls:
  "onCloseCalls (onCloseClick w) = onCloseCalls w @
     (case onClose (props w) of None \<Rightarrow> [] | Some cb \<Rightarrow> [(cb, ''closeButton'')])"
  by (simp add: onCloseClick_def close_onCloseCalls CLOSE_SOURCE_closeButton_def split: option.splits)

lemma step_onCloseCalls:
  "onCloseCalls (step e w) = onCloseCalls w
   \<or> (isDismissal e \<and>
       (\<exists>cb s. onClose (props w) = Some cb \<and> s \<in> {''escape'', ''backdrop'', ''closeButton''}
          \<and> onCloseCalls (step e w) = onCloseCalls w @ [(cb, s)]))"
proof (cases e)
  case (KeyUp ev)
  then show ?thesis
    by (simp add: onDocumentKeyPress_onCloseCalls isDismissal_def split: option.splits)
next
  case ClickBackdrop
  then show ?thesis
    by (simp add: click_backdrop onBackdropClick_onCloseCalls isDismissal_def split: option.splits)
next
  case ClickClose
  then show ?thesis
    by (simp add: click_close onCloseClick_onCloseCalls isDismissal_def split: option.splits)
qed (simp_all add: mount_keeps unmount_keeps setProps_keeps runFrame_keeps fireTimeout_keeps)

lemma runFrame_mounted: "mounted (state (runFrame w)) = mounted (state w)"
proof -
  have f: "mounted (state (fold (\<lambda>f. runCallback (snd f)) fs v)) = mounted (state v)" for fs v
    by (rule fold_keeps [where g = "\<lambda>u. mounted (state u)"]) (simp add: runCallback_state)
  show ?thesis by (simp add: runFrame_def f)
qed

lemma fireTimeout_mounted: "mounted (state (fireTimeout i w)) = mounted (state w)"
  by (simp add: fireTimeout_def runCallback_state clearTimeout_def split: option.splits)

lemma handlers_keep:
  "state (onDocumentKeyPress ev w) = state w" "phase (onDocumentKeyPress ev w) = phase w"
  "state (onBackdropClick w) = state w" "phase (onBackdropClick w) = phase w"
  "state (onCloseClick w) = state w" "phase (onCloseClick w) = phase w"
  by (simp_all add: onDocumentKeyPress_def onBackdropClick_def onCloseClick_def close_keeps)

lemma click_keeps:
  "state (click backdropOf w) = state w" "phase (click backdropOf w) = phase w"
  "state (click closeSlotOf w) = state w" "phase (click closeSlotOf w) = phase w"
  by (simp_all add: click_backdrop click_close handlers_keep)

lemma mount_state:
  "state (mount w) = (if phase w = Constructed then (state w)\<lparr>mounted := True\<rparr> else state w)"
  "phase (mount w) = (if phase w = Constructed then Mounted else phase w)"
  by (simp_all add: mount_def componentDidMount_def setState_state setState_keeps render_keeps)

lemma unmount_phase:
  "phase (unmount w) = (if phase w = Mounted then Unmounted else phase w)"
  by (simp add: unmount_def)

text \<open>No step takes \<open>mounted\<close> back to false.\<close>

lemma step_mounted: "mounted (state w) \<Longrightarrow> mounted (state (step e w))"
  by (cases e)
     (simp_all add: mount_state unmount_keeps setProps_keeps handlers_keep click_keeps
        runFrame_mounted fireTimeout_mounted)

lemma run_mounted: "mounted (state w) \<Longrightarrow> mounted (state (run evs w))"
  unfolding run_def by (induction evs arbitrary: w) (simp_all add: step_mounted)

lemma started_construct: "started (construct p b d a)"
  by (simp add: started_def construct_def)

lemma step_phase_Constructed:
  "phase w \<noteq> Constructed \<Longrightarrow> phase (step e w) \<noteq> Constructed"
  by (cases e)
     (simp_all add: mount_state unmount_phase setProps_keeps handlers_keep click_keeps
        runFrame_keeps fireTimeout_keeps)

lemma step_started: "started w \<Longrightarrow> started (step e w)"
proof (cases "phase w = Constructed")
  case True
  assume s: "started w"
  with True have d: "\<not> isVisible (state w)" "frames w = []" "timeouts w = []" "\<not> keyupListener w"
    by (simp_all add: started_def)
  show ?thesis
  proof (cases e)
    case Mount
    with True show ?thesis by (simp add: started_def mount_state)
  next
    case Frame
    with True d show ?thesis by (simp add: started_def runFrame_def)
  next
    case (FireTimeout i)
    with True d show ?thesis by (simp add: started_def fireTimeout_def)
  qed (use True d in \<open>simp_all add: started_def unmount_def setProps_def click_def\<close>)
next
  case False
  assume "started w"
  with False have "mounted (state w)" by (simp add: started_def)
  then have "mounted (state (step e w))" by (rule step_mounted)
  with step_phase_Constructed [OF False] show ?thesis by (simp add: started_def)
qed

lemma run_started: "started w \<Longrightarrow> started (run evs w)"
  unfolding run_def by (induction evs arbitrary: w) (simp_all add: step_started)

lemma started_visible: "started w \<Longrightarrow> isVisible (state w) \<Longrightarrow> mounted (state w)"
  by (simp add: started_def split: if_splits)

lemma open_after_close_timeouts:
  "timeouts (open (close src w)) = filter (\<lambda>t. fst t \<noteq> Suc (timeoutCount w)) (timeouts w)"
  by (simp add: open_timeouts close_timer)

lemma open_after_two_closes_timeouts:
  "timeouts (open (close src2 (close src w))) =
     filter (\<lambda>t. fst t \<noteq> Suc (Suc (timeoutCount w))) (timeouts w)
       @ [(Suc (timeoutCount w), now w + 500, AnimateOutComplete)]"
  by (simp add: open_timeouts close_timer)

lemma fold_runCallback_phase:
  "phase (fold (\<lambda>f. runCallback (snd f)) fs v) = phase v"
  by (rule fold_keeps) (simp add: runCallback_keeps)

lemma fold_runCallback_last:
  "phase v = Mounted \<Longrightarrow>
   isVisible (state (fold (\<lambda>f. runCallback (snd f)) (fs @ [(i, cb)]) v)) = (cb = ShowFrame)"
  by (simp add: runCallback_state fold_runCallback_phase)

lemma removeDomEvents_keeps:
  "frames (removeDomEvents w) = frames w"
  "animateStartTimer (removeDomEvents w) = animateStartTimer w"
  by (simp_all add: removeDomEvents_def)

lemma unmount_cancels_frame:
  "filter (\<lambda>t. fst t = Suc (frameCount w)) (frames (componentWillUnmount (open w))) = []"
  by (simp add: componentWillUnmount_def clearTimers_frames removeDomEvents_keeps open_frames
      filter_empty_conv)

lemma reopen_cancels_frame:
  "filter (\<lambda>t. fst t = Suc (frameCount w)) (frames (open (open w)))= []"
  by (simp add: open_frames filter_empty_conv)

lemma close_keeps_frame:
  "frames (close src (open w)) =
     (case animateStartTimer w of None \<Rightarrow> frames w
      | Some i \<Rightarrow> if i = 0 then frames w else filter (\<lambda>t. fst t \<noteq> i) (frames w))
     @ [(Suc (frameCount w), ShowFrame)]"
  by (simp add: close_keeps open_frames)

lemma timer_then_frame_visible:
  assumes "phase w = Mounted"
  shows "isVisible (state (runFrame (runCallback AnimateOutComplete (close src (open w)))))"
proof -
  let ?u = "runCallback AnimateOutComplete (close src (open w))"
  obtain fs where fs: "frames ?u = fs @ [(Suc (frameCount w), ShowFrame)]"
    by (simp add: runCallback_keeps close_keeps open_frames)
  have "phase (?u\<lparr>frames := []\<rparr>) = Mounted"
    using assms by (simp add: runCallback_keeps close_keeps open_keeps)
  then have "isVisible (state (fold (\<lambda>f. runCallback (snd f))
      (fs @ [(Suc (frameCount w), ShowFrame)]) (?u\<lparr>frames := []\<rparr>))) = (ShowFrame = ShowFrame)"
    by (rule fold_runCallback_last)
  then show ?thesis by (simp add: runFrame_def fs del: fold_append)
qed

lemma frame_then_timer_hidden:
  "phase w = Mounted \<Longrightarrow>
   \<not> isVisible (state (runCallback AnimateOutComplete (runFrame (close src (open w)))))"
  by (simp add: runCallback_state runFrame_keeps close_keeps open_keeps)

section \<open>The claims\<close>

text \<open>
  C3. \<open>render\<close> returns nothing whenever \<open>mounted\<close> is false, and whenever \<open>isOpen\<close> and
  \<open>isVisible\<close> are both false; in every other state it returns, for a resolvable mount
  node (the \<open>mountNode\<close> prop, else the document body), the portal of the dialog subtree of
  \<open>renderModal\<close> into that node, and nothing when there is no mount node. The subtree is
  Root over Backdrop and DialogContainer, with Dialog inside the latter.
\<close>

theorem render_gate:
  "fst (render w) =
     (if mounted (state w) \<and> (isOpen (props w) \<or> isVisible (state w))
      then (case getMountNode w of
              None \<Rightarrow> None
            | Some node \<Rightarrow> Some (fst (renderModal w), node))
      else None)
   \<and> getMountNode w = (case mountNode (props w) of Some n \<Rightarrow> Some n | None \<Rightarrow> body w)
   \<and> (\<exists>c ps bc bps dcc dcps dc dps x.
         fst (renderModal w) =
           Element c ps [Element bc bps [], Element dcc dcps [Element dc dps [x, getChildren w]]])"
proof -
  have "fst (render w) =
     (if mounted (state w) \<and> (isOpen (props w) \<or> isVisible (state w))
      then (case getMountNode w of
              None \<Rightarrow> None
            | Some node \<Rightarrow> Some (fst (renderModal w), node))
      else None)"
    by (auto simp add: render_def split_beta split: option.splits)
  moreover have "getMountNode w = (case mountNode (props w) of Some n \<Rightarrow> Some n | None \<Rightarrow> body w)"
    by (simp add: getMountNode_def)
  ultimately show ?thesis using renderModal_shape [of w] by blast
qed

text \<open>
  C5. The document key listener closes the modal, with source \<open>escape\<close>, exactly when the
  key is Escape, the event is not \<open>defaultPrevented\<close> and \<open>closeable\<close> is true. In every
  other case it returns the world as it was: no close, no change of state, focus, timers or
  logs. A close always changes the world (it starts a timer), so the two cases never
  coincide.
\<close>

theorem onDocumentKeyPress_escape_iff:
  "onDocumentKeyPress ev w =
     (if key ev = ''Escape'' \<and> \<not> defaultPrevented ev \<and> closeable (props w)
      then close (Some CLOSE_SOURCE_escape) w else w)
   \<and> (onDocumentKeyPress ev w = w)
       = (\<not> (key ev = ''Escape'' \<and> \<not> defaultPrevented ev \<and> closeable (props w)))
   \<and> close (Some CLOSE_SOURCE_escape) w \<noteq> w
   \<and> CLOSE_SOURCE_escape = ''escape''"
  by (simp add: onDocumentKeyPress_def close_changes CLOSE_SOURCE_escape_def)

text \<open>
  C10. A host that leaves the optional props out gets \<open>animate\<close>, \<open>autofocus\<close> and
  \<open>closeable\<close> true, \<open>isOpen\<close> false, no overrides, the role \<open>dialog\<close> and the size
  \<open>default\<close>. \<open>closeable\<close> is true unless the host sets it to false, and then Escape and a
  backdrop click close the modal and the Close slot is rendered.
\<close>

theorem defaultProps_defaults:
  "defaultProps \<lparr>h_animate = None, h_autofocus = None, h_closeable = None, h_isOpen = None,
      h_overrides = None, h_role = None, h_size = None, h_mountNode = m, h_onClose = c,
      h_children = k\<rparr>
     = \<lparr>animate = True, autofocus = True, closeable = True, isOpen = False,
        overrides = noOverrides, role = ROLE_dialog, size' = SIZE_default, mountNode = m,
        onClose = c, children = k\<rparr>
   \<and> noOverrides
       = \<lparr>Root = None, Backdrop = None, DialogContainer = None, Dialog = None, Close = None\<rparr>
   \<and> ROLE_dialog = ''dialog'' \<and> SIZE_default = ''default''
   \<and> closeable (defaultProps h) = (h_closeable h \<noteq> Some False)
   \<and> (h_closeable h \<noteq> Some False \<longrightarrow> props w = defaultProps h \<longrightarrow>
        onDocumentKeyPress \<lparr>key = ''Escape'', defaultPrevented = False\<rparr> w
          = close (Some CLOSE_SOURCE_escape) w
        \<and> onBackdropClick w = close (Some CLOSE_SOURCE_backdrop) w
        \<and> hasCloseSlot (fst (renderModal w)))"
proof -
  have c: "closeable (defaultProps h) = (h_closeable h \<noteq> Some False)"
    by (cases "h_closeable h") (simp_all add: defaultProps_def)
  show ?thesis
    by (simp add: c onDocumentKeyPress_def onBackdropClick_def renderModal_closeSlot)
      (simp add: defaultProps_def ROLE_dialog_def SIZE_default_def noOverrides_def)
qed

theorem defaultProps_defaults_witness:
  "h_closeable plainHost \<noteq> Some False \<and> props freshModal = defaultProps plainHost
   \<and> onDocumentKeyPress \<lparr>key = ''Escape'', defaultPrevented = False\<rparr> freshModal
        = close (Some CLOSE_SOURCE_escape) freshModal
   \<and> onBackdropClick freshModal = close (Some CLOSE_SOURCE_backdrop) freshModal
   \<and> hasCloseSlot (fst (renderModal freshModal))"
proof -
  have h: "h_closeable plainHost \<noteq> Some False" by (simp add: plainHost_def)
  have p: "props freshModal = defaultProps plainHost"
    by (simp add: freshModal_def construct_def closedProps_def)
  from defaultProps_defaults [of _ _ _ plainHost freshModal] h p show ?thesis by blast
qed

text \<open>
  C2. \<open>close\<close> calls \<open>onClose\<close> exactly when it is given a source and the host supplied the
  callback, and then once, with that source. An update of the props by the host (such as
  \<open>isOpen\<close> going from true to false) never calls it. Each dismissal handler that closes
  calls it once with its own source: \<open>escape\<close> for the key listener, \<open>backdrop\<close> for the
  backdrop, \<open>closeButton\<close> for the close button. No step of the surroundings adds more than
  one call, and only a dismissal with a supplied callback adds one.
\<close>

theorem onClose_called_iff_sourced:
  "onCloseCalls (close src w) = onCloseCalls w @
     (case (onClose (props w), src) of
        (Some cb, Some s) \<Rightarrow> if s \<noteq> [] then [(cb, s)] else []
      | _ \<Rightarrow> [])
   \<and> onCloseCalls (close None w) = onCloseCalls w
   \<and> onCloseCalls (setProps p w) = onCloseCalls w
   \<and> onCloseCalls (onDocumentKeyPress ev w) = onCloseCalls w @
       (case onClose (props w) of
          None \<Rightarrow> []
        | Some cb \<Rightarrow> if key ev = ''Escape'' \<and> \<not> defaultPrevented ev \<and> closeable (props w)
                   then [(cb, CLOSE_SOURCE_escape)] else [])
   \<and> onCloseCalls (onBackdropClick w) = onCloseCalls w @
       (case onClose (props w) of
          None \<Rightarrow> []
        | Some cb \<Rightarrow> if closeable (props w) then [(cb, CLOSE_SOURCE_backdrop)] else [])
   \<and> onCloseCalls (onCloseClick w) = onCloseCalls w @
       (case onClose (props w) of None \<Rightarrow> [] | Some cb \<Rightarrow> [(cb, CLOSE_SOURCE_closeButton)])
   \<and> (onCloseCalls (step e w) = onCloseCalls w
       \<or> (isDismissal e \<and>
           (\<exists>cb s. onClose (props w) = Some cb
              \<and> s \<in> {CLOSE_SOURCE_escape, CLOSE_SOURCE_backdrop, CLOSE_SOURCE_closeButton}
              \<and> onCloseCalls (step e w) = onCloseCalls w @ [(cb, s)])))"
proof -
  have "onCloseCalls (close None w) = onCloseCalls w"
    by (simp add: close_onCloseCalls split: option.splits)
  then show ?thesis
    using step_onCloseCalls [of e w]
    unfolding CLOSE_SOURCE_escape_def CLOSE_SOURCE_backdrop_def CLOSE_SOURCE_closeButton_def
    by (simp only: close_onCloseCalls setProps_keeps onDocumentKeyPress_onCloseCalls
        onBackdropClick_onCloseCalls onCloseClick_onCloseCalls simp_thms)
qed

text \<open>
  C4. \<open>open\<close> stores the element that is focused when it starts in \<open>lastFocus\<close>. \<open>close\<close>,
  with any source or none, calls \<open>focus\<close> on the stored element when that element can be
  focused and makes no focus call otherwise, and clears \<open>lastFocus\<close>; so a close straight
  after an open gives the focus back to the element focused at the open, and a second
  close in a row makes no focus call and leaves the active element alone. Animation
  frames and timeouts between the open and the close leave \<open>lastFocus\<close> as it is.
\<close>

theorem focus_captured_and_restored:
  "lastFocus (open w) = activeElement w
   \<and> lastFocus (close src w) = None
   \<and> focusCalls (close src w) = focusCalls w @
       (case lastFocus w of None \<Rightarrow> [] | Some el \<Rightarrow> if canFocus el then [el] else [])
   \<and> activeElement (close src w) =
       (case lastFocus w of None \<Rightarrow> activeElement w
        | Some el \<Rightarrow> if canFocus el then Some el else activeElement w)
   \<and> focusCalls (close src (open w)) = focusCalls (open w) @
       (case activeElement w of None \<Rightarrow> [] | Some el \<Rightarrow> if canFocus el then [el] else [])
   \<and> activeElement (close src (open w)) =
       (case activeElement w of None \<Rightarrow> activeElement (open w)
        | Some el \<Rightarrow> if canFocus el then Some el else activeElement (open w))
   \<and> focusCalls (close src2 (close src w)) = focusCalls (close src w)
   \<and> activeElement (close src2 (close src w)) = activeElement (close src w)
   \<and> lastFocus (step Frame w) = lastFocus w
   \<and> lastFocus (step (FireTimeout i) w) = lastFocus w"
  by (simp add: open_lastFocus close_focus runFrame_keeps fireTimeout_keeps)

text \<open>
  C8. As stated the claim fails: with a host override of the Close slot that brings an
  \<open>onClick\<close> of its own, the close button is rendered (\<open>closeable\<close> is true), and a click
  on it changes nothing, so it does not close.
\<close>

theorem close_click_own_onClick_counterexample:
  "closeable (props ownClickModal) \<and> phase ownClickModal = Mounted
   \<and> fst (render ownClickModal) \<noteq> None
   \<and> hasCloseSlot (fst (renderModal ownClickModal))
   \<and> step ClickClose ownClickModal = ownClickModal
   \<and> step ClickClose ownClickModal \<noteq> close (Some CLOSE_SOURCE_closeButton) ownClickModal"
proof -
  have c: "closeable (props ownClickModal)" by code_simp
  have p: "phase ownClickModal = Mounted" by code_simp
  have r: "fst (render ownClickModal) \<noteq> None" by code_simp
  have o: "propOf ''onClick'' (getOverrideProps (Close (overrides (props ownClickModal)))) \<noteq> None"
    by code_simp
  have s: "step ClickClose ownClickModal = ownClickModal"
    using o by (auto simp add: click_close)
  have h: "hasCloseSlot (fst (renderModal ownClickModal))"
    using c by (simp add: renderModal_closeSlot)
  have n: "step ClickClose ownClickModal \<noteq> close (Some CLOSE_SOURCE_closeButton) ownClickModal"
    unfolding s by (rule not_sym) (rule close_changes)
  show ?thesis by (intro conjI; fact)
qed

text \<open>
  C8, amended. The Close slot of the rendered tree holds an element exactly when
  \<open>closeable\<close> is true. The handler of the close button, \<open>onCloseClick\<close>, closes with
  source \<open>closeButton\<close> whatever \<open>closeable\<close> is, and a click on the rendered close button
  runs that handler unless the host's override of the Close slot brings an \<open>onClick\<close> of
  its own (the override props are spread last). When \<open>closeable\<close> is false the backdrop
  handler and a click on the backdrop change nothing.
\<close>

theorem close_slot_iff_closeable:
  "hasCloseSlot (fst (renderModal w)) = closeable (props w)
   \<and> onCloseClick w = close (Some CLOSE_SOURCE_closeButton) w
   \<and> onCloseClick w \<noteq> w
   \<and> step ClickClose w =
       (if phase w = Mounted \<and> fst (render w) \<noteq> None \<and> closeable (props w)
           \<and> propOf ''onClick'' (getOverrideProps (Close (overrides (props w)))) = None
        then close (Some CLOSE_SOURCE_closeButton) w else w)
   \<and> onBackdropClick w
       = (if closeable (props w) then close (Some CLOSE_SOURCE_backdrop) w else w)
   \<and> (\<not> closeable (props w) \<longrightarrow> onBackdropClick w = w \<and> step ClickBackdrop w = w)"
  by (simp add: renderModal_closeSlot onCloseClick_def close_changes click_close click_backdrop
      onBackdropClick_def)

theorem close_slot_iff_closeable_witness:
  "\<not> closeable (props lockedModal) \<and> phase lockedModal = Mounted
   \<and> fst (render lockedModal) \<noteq> None
   \<and> onBackdropClick lockedModal = lockedModal \<and> step ClickBackdrop lockedModal = lockedModal
   \<and> closeable (props shownModal) \<and> phase shownModal = Mounted
   \<and> fst (render shownModal) \<noteq> None
   \<and> step ClickClose shownModal = close (Some CLOSE_SOURCE_closeButton) shownModal"
proof -
  have h: "\<not> closeable (props lockedModal)" by code_simp
  have r: "phase lockedModal = Mounted \<and> fst (render lockedModal) \<noteq> None" by code_simp
  have c: "closeable (props shownModal)" by code_simp
  have p: "phase shownModal = Mounted \<and> fst (render shownModal) \<noteq> None" by code_simp
  have o: "propOf ''onClick'' (getOverrideProps (Close (overrides (props shownModal)))) = None"
    by code_simp
  from close_slot_iff_closeable [of lockedModal] h r
  have l: "onBackdropClick lockedModal = lockedModal \<and> step ClickBackdrop lockedModal = lockedModal"
    by blast
  from close_slot_iff_closeable [of shownModal] c p o
  have s: "step ClickClose shownModal = close (Some CLOSE_SOURCE_closeButton) shownModal"
    by simp
  from h r l c p s show ?thesis by blast
qed

text \<open>
  C9. With a \<open>$ref\<close> in the host's override of the Dialog slot, \<open>getRef\<close> returns that ref
  for the Dialog handle; it returns the same ref for the Root handle as well, since it
  looks at the override of the Dialog slot whatever component it is asked for. The Root
  handle is then not a ref of the component's own, and no ref is created for it.
\<close>

theorem getRef_Root_takes_Dialog_override:
  "(let w' = w\<lparr>props := (props w)\<lparr>overrides := (overrides (props w))
                \<lparr>Dialog := Some \<lparr>replacement = c, oprops = [(''$ref'', HRef r)]\<rparr>\<rparr>\<rparr>\<rparr>
    in getRef ''Dialog'' w' = (r, w') \<and> getRef ''Root'' w' = (r, w'))"
  by (simp add: Let_def getRef_def getOverrideProps_def hostProp_def propOf_def)

text \<open>
  C1. A new instance has \<open>mounted\<close> false and React's mount makes it true. No step (mount,
  update of the props, key or click event, animation frame, timeout, unmount, or a change
  of the surroundings) takes \<open>mounted\<close> from true to false, so no sequence of steps does.
  After every sequence of steps from a new instance, \<open>isVisible\<close> is true only if
  \<open>mounted\<close> is.
\<close>

theorem mounted_monotone_visible_implies_mounted:
  "\<not> mounted (state (construct p b d a))
   \<and> mounted (state (step Mount (construct p b d a)))
   \<and> (mounted (state w) \<longrightarrow> mounted (state (step e w)) \<and> mounted (state (run evs' w)))
   \<and> (isVisible (state (run evs (construct p b d a)))
        \<longrightarrow> mounted (state (run evs (construct p b d a))))"
proof -
  have "started (run evs (construct p b d a))"
    by (rule run_started) (rule started_construct)
  then have "isVisible (state (run evs (construct p b d a)))
        \<longrightarrow> mounted (state (run evs (construct p b d a)))"
    by (blast intro: started_visible)
  moreover have "\<not> mounted (state (construct p b d a))"
    by (simp add: construct_def)
  moreover have "mounted (state (step Mount (construct p b d a)))"
    by (simp add: mount_state construct_def)
  ultimately show ?thesis by (simp add: step_mounted run_mounted)
qed

theorem mounted_monotone_visible_implies_mounted_witness:
  "mounted (state (step Mount freshModal))
   \<and> mounted (state (step Unmount (step Mount freshModal)))
   \<and> mounted (state (run [SetProps openProps, Frame, Unmount] (step Mount freshModal)))
   \<and> isVisible (state (run [Mount, SetProps openProps, Frame] freshModal))
   \<and> mounted (state (run [Mount, SetProps openProps, Frame] freshModal))"
proof -
  have m: "mounted (state (step Mount freshModal))" by code_simp
  have v: "isVisible (state (run [Mount, SetProps openProps, Frame] freshModal))" by code_simp
  from mounted_monotone_visible_implies_mounted
         [where p = closedProps and b = True and d = "Some pageBody" and a = "Some pageButton"
            and w = "step Mount freshModal" and e = Unmount
            and evs' = "[SetProps openProps, Frame, Unmount]"
            and evs = "[Mount, SetProps openProps, Frame]"]
  show ?thesis using m v by (simp add: freshModal_def)
qed

text \<open>
  C6. \<open>close\<close> starts a timeout of 500 units that runs \<open>animateOutComplete\<close>, which sets
  \<open>isVisible\<close> to false on a mounted instance, and an \<open>open\<close> straight after it cancels
  that timeout. The handle of a timeout is kept in one field, though: after two closes in
  a row (the user's dismissal and the host's answer to \<open>onClose\<close>), \<open>open\<close> cancels the
  second timeout only and the first stays pending. In the history \<open>dismissThenReopen\<close> it
  is still pending after the modal was opened again, fires 500 units after the dismissal
  and hides the open modal; with a single close (\<open>closeThenReopen\<close>) nothing is pending
  and the modal stays visible.
\<close>

theorem stale_hide_timer_survives_reopen:
  "timeouts (close src w) = timeouts w @ [(Suc (timeoutCount w), now w + 500, AnimateOutComplete)]
   \<and> animateOutTimer (close src w) = Some (Suc (timeoutCount w))
   \<and> state (runCallback AnimateOutComplete w) =
       (if phase w = Mounted then (state w)\<lparr>isVisible := False\<rparr> else state w)
   \<and> timeouts (open (close src w)) = filter (\<lambda>t. fst t \<noteq> Suc (timeoutCount w)) (timeouts w)
   \<and> timeouts (open (close src2 (close src w))) =
       filter (\<lambda>t. fst t \<noteq> Suc (Suc (timeoutCount w))) (timeouts w)
         @ [(Suc (timeoutCount w), now w + 500, AnimateOutComplete)]
   \<and> timeouts (run closeThenReopen freshModal) = []
   \<and> isVisible (state (run [Advance 400, FireTimeout 1] (run closeThenReopen freshModal)))
   \<and> timeouts (run dismissThenReopen freshModal) = [(1, 500, AnimateOutComplete)]
   \<and> isOpen (props (run dismissThenReopen freshModal))
   \<and> isVisible (state (run dismissThenReopen freshModal))
   \<and> isOpen (props (run [Advance 400, FireTimeout 1] (run dismissThenReopen freshModal)))
   \<and> \<not> isVisible (state (run [Advance 400, FireTimeout 1] (run dismissThenReopen freshModal)))"
proof -
  have a: "timeouts (run closeThenReopen freshModal) = []" by code_simp
  have b: "isVisible (state (run [Advance 400, FireTimeout 1] (run closeThenReopen freshModal)))"
    by code_simp
  have c: "timeouts (run dismissThenReopen freshModal) = [(1, 500, AnimateOutComplete)]"
    by code_simp
  have d: "isOpen (props (run dismissThenReopen freshModal))" by code_simp
  have e: "isVisible (state (run dismissThenReopen freshModal))" by code_simp
  have f: "isOpen (props (run [Advance 400, FireTimeout 1] (run dismissThenReopen freshModal)))"
    by code_simp
  have g: "\<not> isVisible (state (run [Advance 400, FireTimeout 1] (run dismissThenReopen freshModal)))"
    by code_simp
  have h: "state (runCallback AnimateOutComplete w) =
       (if phase w = Mounted then (state w)\<lparr>isVisible := False\<rparr> else state w)"
    by (simp add: runCallback_state)
  have i: "timeouts (close src w)
      = timeouts w @ [(Suc (timeoutCount w), now w + 500, AnimateOutComplete)]"
    by (rule close_timer)
  have j: "animateOutTimer (close src w) = Some (Suc (timeoutCount w))"
    by (rule close_timer)
  have k: "timeouts (open (close src w))
      = filter (\<lambda>t. fst t \<noteq> Suc (timeoutCount w)) (timeouts w)"
    by (rule open_after_close_timeouts)
  have l: "timeouts (open (close src2 (close src w))) =
       filter (\<lambda>t. fst t \<noteq> Suc (Suc (timeoutCount w))) (timeouts w)
         @ [(Suc (timeoutCount w), now w + 500, AnimateOutComplete)]"
    by (rule open_after_two_closes_timeouts)
  show ?thesis by (intro conjI; fact)
qed

text \<open>
  C7. \<open>close\<close> starts the hide timer and leaves the frame callback of the \<open>open\<close> before
  it pending: unlike \<open>open\<close> and \<open>componentWillUnmount\<close>, which cancel it through
  \<open>clearTimers\<close>, \<open>close\<close> does not touch it. After an open followed at once by a close,
  the order in which the browser runs the two callbacks decides the outcome. When the
  frame callback runs first, the hide callback leaves \<open>isVisible\<close> false. When the hide
  callback runs first, the frame callback sets \<open>isVisible\<close> to true afterwards: in the
  history \<open>closeBeforeFrame\<close> the closed modal ends visible with nothing left to run,
  where the claim has \<open>isVisible\<close> false for every interleaving.
\<close>

theorem close_leaves_frame_callback_pending:
  "frames (close src w) = frames w
   \<and> animateStartTimer (close src w) = animateStartTimer w
   \<and> frames (close src (open w)) =
       (case animateStartTimer w of None \<Rightarrow> frames w
        | Some i \<Rightarrow> if i = 0 then frames w else filter (\<lambda>t. fst t \<noteq> i) (frames w))
       @ [(Suc (frameCount w), ShowFrame)]
   \<and> filter (\<lambda>t. fst t = Suc (frameCount w)) (frames (componentWillUnmount (open w))) = []
   \<and> filter (\<lambda>t. fst t = Suc (frameCount w)) (frames (open (open w))) = []
   \<and> (phase w = Mounted \<longrightarrow>
        isVisible (state (runFrame (runCallback AnimateOutComplete (close src (open w)))))
        \<and> \<not> isVisible (state (runCallback AnimateOutComplete (runFrame (close src (open w))))))
   \<and> isVisible (state (run closeBeforeFrame freshModal))
   \<and> isOpen (props (run closeBeforeFrame freshModal)) = False
   \<and> timeouts (run closeBeforeFrame freshModal) = []
   \<and> frames (run closeBeforeFrame freshModal) = []
   \<and> isVisible (state (run closeThenFrame freshModal)) = False
   \<and> timeouts (run closeThenFrame freshModal) = []
   \<and> frames (run closeThenFrame freshModal) = []"
proof -
  have a: "frames (close src w) = frames w" by (rule close_keeps)
  have b: "animateStartTimer (close src w) = animateStartTimer w" by (rule close_keeps)
  have c: "frames (close src (open w)) =
       (case animateStartTimer w of None \<Rightarrow> frames w
        | Some i \<Rightarrow> if i = 0 then frames w else filter (\<lambda>t. fst t \<noteq> i) (frames w))
       @ [(Suc (frameCount w), ShowFrame)]"
    by (rule close_keeps_frame)
  have d: "filter (\<lambda>t. fst t = Suc (frameCount w)) (frames (componentWillUnmount (open w))) = []"
    by (rule unmount_cancels_frame)
  have e: "filter (\<lambda>t. fst t = Suc (frameCount w)) (frames (open (open w))) = []"
    by (rule reopen_cancels_frame)
  have f: "phase w = Mounted \<longrightarrow>
        isVisible (state (runFrame (runCallback AnimateOutComplete (close src (open w)))))
        \<and> \<not> isVisible (state (runCallback AnimateOutComplete (runFrame (close src (open w)))))"
    using timer_then_frame_visible [of w src] frame_then_timer_hidden [of w src] by blast
  have g: "isVisible (state (run closeBeforeFrame freshModal))" by code_simp
  have h: "isOpen (props (run closeBeforeFrame freshModal)) = False" by code_simp
  have i: "timeouts (run closeBeforeFrame freshModal) = []" by code_simp
  have j: "frames (run closeBeforeFrame freshModal) = []" by code_simp
  have k: "isVisible (state (run closeThenFrame freshModal)) = False" by code_simp
  have l: "timeouts (run closeThenFrame freshModal) = []" by code_simp
  have m: "frames (run closeThenFrame freshModal) = []" by code_simp
  show ?thesis by (intro conjI; fact)
qed

theorem close_leaves_frame_callback_pending_witness:
  "phase (step Mount freshModal) = Mounted
   \<and> isVisible (state (runFrame (runCallback AnimateOutComplete
        (close None (open (step Mount freshModal))))))
   \<and> \<not> isVisible (state (runCallback AnimateOutComplete
        (runFrame (close None (open (step Mount freshModal))))))"
proof -
  have p: "phase (step Mount freshModal) = Mounted" by code_simp
  from close_leaves_frame_callback_pending [where w = "step Mount freshModal" and src = None] p
  show ?thesis by blast
qed

end
